theory Spec2Isabelle
  imports Main "HOL-Library.Product_Lexorder"
begin

section \<open>The feature table and the responses of the Feature API (api/routes.py)\<close>

text \<open>
  A row of the \<open>features\<close> table, with the columns that \<open>FeatureResponse\<close> lists.
  The column \<open>id\<close> is called \<open>fid\<close> here, because \<open>id\<close> is the identity function of HOL.
  Integers are Python integers, so they are unbounded; the range of the integer columns
  of the store is not part of the model.  The table is the list of its rows.
\<close>

record feature =
  fid :: int
  priority :: int
  category :: string
  name :: string
  description :: string
  steps :: "string list"
  passes :: bool

type_synonym db = "feature list"

text \<open>
  What a route raises instead of returning: \<open>HTTPException (status_code, detail)\<close>, or the
  422 answer that FastAPI gives when a \<open>Query\<close> constraint (\<open>ge\<close>, \<open>le\<close>) is violated.
\<close>

datatype error = HTTPException nat string | RequestValidationError

record feature_list_response =
  features :: "feature list"
  total :: nat
  limit :: int
  offset :: int

record passing_feature_summary =
  summary_id :: int
  summary_category :: string
  summary_name :: string

record all_passing_response =
  passing_features :: "passing_feature_summary list"
  passing_count :: nat

record skip_response =
  skip_id :: int
  skip_name :: string
  old_priority :: int
  new_priority :: int
  message :: string

text \<open>\<open>Query.first()\<close>: the first row of a result, or \<open>None\<close>.\<close>

fun first :: "'a list \<Rightarrow> 'a option" where
  "first [] = None"
| "first (x # xs) = Some x"

text \<open>\<open>order_by(Feature.priority.asc(), Feature.id.asc())\<close>\<close>

definition order_by_priority_id :: "feature list \<Rightarrow> feature list" where
  "order_by_priority_id rows = sort_key (\<lambda>f. (priority f, fid f)) rows"

text \<open>\<open>db.query(Feature.priority).order_by(Feature.priority.desc()).first()\<close>\<close>

definition max_priority :: "db \<Rightarrow> int option" where
  "max_priority rows = first (rev (sort (map priority rows)))"

text \<open>
  \<open>list_features\<close>.  A query parameter that the caller leaves out is \<open>None\<close> and takes the
  default of its \<open>Query\<close> declaration; \<open>limit\<close> is declared \<open>Query(5, ge=1, le=5)\<close> and
  \<open>offset\<close> is declared \<open>Query(0, ge=0)\<close>, and a value outside these bounds is answered
  with a validation error before the body runs.  The order that \<open>func.random()\<close> gives is
  the parameter \<open>shuffle\<close>.
\<close>

definition list_features ::
  "int option \<Rightarrow> int option \<Rightarrow> bool option \<Rightarrow> string option \<Rightarrow> bool \<Rightarrow>
   (feature list \<Rightarrow> feature list) \<Rightarrow> db \<Rightarrow> error + feature_list_response" where
  "list_features limit_param offset_param passes_param category_param random shuffle rows =
    (let lim = (case limit_param of None \<Rightarrow> 5 | Some l \<Rightarrow> l);
         off = (case offset_param of None \<Rightarrow> 0 | Some k \<Rightarrow> k)
     in if \<not> (1 \<le> lim \<and> lim \<le> 5) \<or> \<not> 0 \<le> off then Inl RequestValidationError
        else
          let query = (case passes_param of None \<Rightarrow> rows
                       | Some p \<Rightarrow> filter (\<lambda>f. passes f = p) rows);
              query = (case category_param of None \<Rightarrow> query
                       | Some c \<Rightarrow> filter (\<lambda>f. category f = c) query);
              found = (if random then take (nat lim) (shuffle query)
                       else take (nat lim) (drop (nat off) (order_by_priority_id query)))
          in Inr \<lparr>features = found, total = length query, limit = lim, offset = off\<rparr>)"

text \<open>\<open>get_next_feature\<close>: the first pending row in the order (priority, id), or 404.\<close>

definition get_next_feature :: "db \<Rightarrow> error + feature" where
  "get_next_feature rows =
    (case first (order_by_priority_id (filter (\<lambda>f. passes f = False) rows)) of
       None \<Rightarrow> Inl (HTTPException 404 ''All features are passing! No more work to do.'')
     | Some f \<Rightarrow> Inr f)"

text \<open>\<open>get_all_passing_features\<close>: every passing row, in the order (priority, id).\<close>

definition get_all_passing_features :: "db \<Rightarrow> all_passing_response" where
  "get_all_passing_features rows =
    (let found = order_by_priority_id (filter (\<lambda>f. passes f = True) rows)
     in \<lparr>passing_features =
           map (\<lambda>f. \<lparr>summary_id = fid f, summary_category = category f,
                     summary_name = name f\<rparr>) found,
         passing_count = length found\<rparr>)"

text \<open>
  \<open>skip_feature\<close> returns its answer and the table after the call.  The assignment
  \<open>feature.priority = new_priority\<close> followed by \<open>db.commit()\<close> updates the row whose
  primary key is the one of the row that was read; a raised exception leaves the table as
  it was.
\<close>

definition skip_feature :: "int \<Rightarrow> db \<Rightarrow> (error + skip_response) \<times> db" where
  "skip_feature feature_id rows =
    (case first (filter (\<lambda>f. fid f = feature_id) rows) of
       None \<Rightarrow> (Inl (HTTPException 404 ''Feature not found''), rows)
     | Some f \<Rightarrow>
         if passes f
         then (Inl (HTTPException 400 ''Cannot skip a feature that is already passing''), rows)
         else
           let old = priority f;
               new = (case max_priority rows of Some m \<Rightarrow> m + 1 | None \<Rightarrow> 1)
           in (Inr \<lparr>skip_id = fid f, skip_name = name f, old_priority = old,
                    new_priority = new,
                    message = ''Feature '' @ [CHR 0x27] @ name f @ [CHR 0x27]
                              @ '' moved to end of queue''\<rparr>,
               map (\<lambda>g. if fid g = fid f then g\<lparr>priority := new\<rparr> else g) rows))"

section \<open>Progress tracking (progress.py)\<close>

text \<open>
  A call that can raise returns \<open>Inl\<close> with the text of the exception, or \<open>Inr\<close> with
  its value.  The answer of \<open>_api_get("/features/all-passing")\<close> has the shape of
  \<open>AllPassingResponse\<close>, so every feature of it has an id, a category and a name, and the
  defaults of \<open>feature.get\<close> are never taken.
\<close>

type_synonym 'a raising = "string + 'a"

text \<open>
  The text of the cache file.  \<open>Unparsable\<close> is a text on which the \<open>try\<close> block that reads
  it raises (not JSON, or JSON that is not an object, or a \<open>passing_ids\<close> that \<open>set\<close>
  cannot take).  Otherwise the text is what the function itself writes, an object with an
  integer \<open>count\<close> and a list of integers \<open>passing_ids\<close>, where each key may be missing.
\<close>

datatype cache_text = Unparsable | Cache_Data "int option" "int list option"

text \<open>
  The payload of the notification.  Its \<open>percentage\<close> (a rounded float) and its
  \<open>timestamp\<close> (the clock) are left out.
\<close>

record payload =
  event :: string
  payload_passing :: int
  payload_total :: int
  previous_passing :: int
  tests_completed_this_session :: int
  completed_tests :: "string list"
  project :: string

datatype printed =
    API_unavailable string
  | API_error string
  | Webhook_failed string
  | Progress int int
  | No_features

text \<open>
  What a call can change: the cache file of the project (\<open>None\<close> when the file does not
  exist), the request bodies posted to the webhook (also those of a call that raised),
  and the lines printed.
\<close>

record world =
  cache_file :: "cache_text option"
  posted :: "payload list list"
  printed_lines :: "printed list"

text \<open>\<open>if not WEBHOOK_URL\<close>: the variable is unset or empty.\<close>

definition not_url :: "string option \<Rightarrow> bool" where
  "not_url url = (case url of None \<Rightarrow> True | Some u \<Rightarrow> u = [])"

text \<open>
  Reading the previous progress: \<open>(previous, previous_passing_ids)\<close>.  When the \<open>try\<close>
  block raises, \<open>previous\<close> is reset to 0 and \<open>previous_passing_ids\<close> still is the empty
  set it was initialised with.
\<close>

fun read_cache :: "cache_text option \<Rightarrow> int \<times> int set" where
  "read_cache None = (0, {})"
| "read_cache (Some Unparsable) = (0, {})"
| "read_cache (Some (Cache_Data c ids)) =
     (case c of None \<Rightarrow> 0 | Some n \<Rightarrow> n, case ids of None \<Rightarrow> {} | Some xs \<Rightarrow> set xs)"

text \<open>
  The entry of \<open>completed_tests\<close> for a newly passing feature: \<open>f"{category} {name}"\<close>
  when the category is not empty, else the name.
\<close>

definition descriptor :: "passing_feature_summary \<Rightarrow> string" where
  "descriptor feature =
    (if summary_category feature \<noteq> []
     then summary_category feature @ '' '' @ summary_name feature
     else summary_name feature)"

text \<open>
  The loop over the passing features, on \<open>(current_passing_ids, completed_tests)\<close>;
  \<open>completed\<close> stands for \<open>completed_tests\<close>.
\<close>

fun collect ::
  "bool \<Rightarrow> int set \<Rightarrow> passing_feature_summary list \<Rightarrow> int list \<times> string list \<Rightarrow>
   int list \<times> string list" where
  "collect is_old_cache_format previous_passing_ids [] acc = acc"
| "collect is_old_cache_format previous_passing_ids (feature # rest)
     (current_passing_ids, completed) =
     collect is_old_cache_format previous_passing_ids rest
       (current_passing_ids @ [summary_id feature],
        if \<not> is_old_cache_format \<and> summary_id feature \<notin> previous_passing_ids
        then completed @ [descriptor feature]
        else completed)"

text \<open>
  \<open>send_progress_webhook\<close>.  Besides the arguments of the source it takes what the source
  reads from its environment: the webhook URL, the outcome of the call to
  \<open>/features/all-passing\<close> and the outcome of the call to the webhook.  The argument
  \<open>project_dir\<close> is the name of the project directory.  Every call of the source that
  can raise sits in a \<open>try\<close> block, so the function always returns.
\<close>

definition send_progress_webhook ::
  "string option \<Rightarrow> all_passing_response raising \<Rightarrow> unit raising \<Rightarrow>
   int \<Rightarrow> int \<Rightarrow> string \<Rightarrow> world \<Rightarrow> world" where
  "send_progress_webhook WEBHOOK_URL api urlopen passing total' project_dir w =
    (if not_url WEBHOOK_URL then w
     else
       let (previous, previous_passing_ids) = read_cache (cache_file w)
       in if passing > previous then
            let is_old_cache_format = (card previous_passing_ids = 0 \<and> previous > 0);
                ((current_passing_ids, completed), w) =
                  (case api of
                     Inr data \<Rightarrow>
                       (collect is_old_cache_format previous_passing_ids
                          (passing_features data) ([], []), w)
                   | Inl e \<Rightarrow> (([], []), w\<lparr>printed_lines := printed_lines w @ [API_error e]\<rparr>));
                body = [\<lparr>event = ''test_progress'', payload_passing = passing,
                         payload_total = total', previous_passing = previous,
                         tests_completed_this_session = passing - previous,
                         completed_tests = completed, project = project_dir\<rparr>];
                w = w\<lparr>posted := posted w @ [body]\<rparr>;
                w = (case urlopen of Inr _ \<Rightarrow> w
                     | Inl e \<Rightarrow> w\<lparr>printed_lines := printed_lines w @ [Webhook_failed e]\<rparr>)
            in w\<lparr>cache_file := Some (Cache_Data (Some passing) (Some current_passing_ids))\<rparr>
          else if cache_file w = None then
            let current_passing_ids =
                  (case api of
                     Inr data \<Rightarrow>
                       map summary_id (passing_features data)
                   | Inl e \<Rightarrow> [])
            in w\<lparr>cache_file := Some (Cache_Data (Some passing) (Some current_passing_ids))\<rparr>
          else w)"

text \<open>\<open>count_passing_tests\<close>, from the outcome of the call to \<open>/features/stats\<close>.\<close>

definition count_passing_tests :: "(int \<times> int) raising \<Rightarrow> world \<Rightarrow> (int \<times> int) \<times> world" where
  "count_passing_tests stats w =
    (case stats of
       Inr (passing, total') \<Rightarrow> ((passing, total'), w)
     | Inl e \<Rightarrow> ((0, 0), w\<lparr>printed_lines := printed_lines w @ [API_unavailable e]\<rparr>))"

definition print_progress_summary ::
  "string option \<Rightarrow> (int \<times> int) raising \<Rightarrow> all_passing_response raising \<Rightarrow> unit raising \<Rightarrow>
   string \<Rightarrow> world \<Rightarrow> world" where
  "print_progress_summary WEBHOOK_URL stats api urlopen project_dir w =
    (let ((passing, total'), w) = count_passing_tests stats w
     in if total' > 0
        then send_progress_webhook WEBHOOK_URL api urlopen passing total' project_dir
               (w\<lparr>printed_lines := printed_lines w @ [Progress passing total']\<rparr>)
        else w\<lparr>printed_lines := printed_lines w @ [No_features]\<rparr>)"

section \<open>Example data\<close>

definition example_feature :: "int \<Rightarrow> int \<Rightarrow> bool \<Rightarrow> feature" where
  "example_feature i p b =
    \<lparr>fid = i, priority = p, category = ''ui'', name = ''item'', description = ''text'',
     steps = [''step''], passes = b\<rparr>"

definition example_rows :: db where
  "example_rows =
    [example_feature 1 3 False, example_feature 2 1 True,
     example_feature 3 2 False, example_feature 4 2 False]"

definition example_summary :: "int \<Rightarrow> string \<Rightarrow> string \<Rightarrow> passing_feature_summary" where
  "example_summary i c n = \<lparr>summary_id = i, summary_category = c, summary_name = n\<rparr>"

definition example_passing :: "passing_feature_summary list \<Rightarrow> all_passing_response" where
  "example_passing fs = \<lparr>passing_features = fs, passing_count = length fs\<rparr>"

definition example_world :: "cache_text option \<Rightarrow> world" where
  "example_world c = \<lparr>cache_file = c, posted = [], printed_lines = []\<rparr>"

lemmas example_defs =
  example_feature_def example_rows_def example_summary_def example_passing_def
  example_world_def

section \<open>Facts about the queries\<close>

lemma first_eq_None: "first xs = None \<longleftrightarrow> xs = []"
  by (cases xs) simp_all

lemma first_eq_Some: "first xs = Some x \<longleftrightarrow> (\<exists>ys. xs = x # ys)"
  by (cases xs) auto

lemma sort_key_eq_Nil: "sort_key k xs = [] \<longleftrightarrow> xs = []"
  by (metis length_sort length_0_conv)

lemma length_order_by [simp]: "length (order_by_priority_id rows) = length rows"
  by (simp add: order_by_priority_id_def)

lemma first_order_by_None:
  "first (order_by_priority_id rows) = None \<longleftrightarrow> rows = []"
  by (simp add: first_eq_None order_by_priority_id_def sort_key_eq_Nil)

text \<open>The first row of an ordered result is one of the rows and is least in the order.\<close>

lemma first_order_by_Some:
  assumes "first (order_by_priority_id rows) = Some f"
  shows "f \<in> set rows"
    and "\<forall>g\<in>set rows. (priority f, fid f) \<le> (priority g, fid g)"
proof -
  from assms obtain ys where ys: "sort_key (\<lambda>f. (priority f, fid f)) rows = f # ys"
    by (auto simp: first_eq_Some order_by_priority_id_def)
  have s: "set (f # ys) = set rows"
    by (simp flip: ys)
  then show "f \<in> set rows" by auto
  have "sorted (map (\<lambda>f. (priority f, fid f)) (f # ys))"
    by (simp flip: ys)
  then have "\<forall>g\<in>set (f # ys). (priority f, fid f) \<le> (priority g, fid g)"
    by auto
  then show "\<forall>g\<in>set rows. (priority f, fid f) \<le> (priority g, fid g)"
    unfolding s .
qed

text \<open>Descending order followed by \<open>first()\<close> reads the maximum.\<close>

lemma first_rev_sort:
  fixes xs :: "int list"
  assumes "xs \<noteq> []"
  shows "first (rev (sort xs)) = Some (Max (set xs))"
proof -
  have ne: "sort xs \<noteq> []" using assms by (simp add: sort_key_eq_Nil)
  then obtain ys y where ys: "sort xs = ys @ [y]"
    by (cases "sort xs" rule: rev_cases) auto
  have "sorted (ys @ [y])" by (simp flip: ys)
  then have le: "\<forall>x\<in>set (ys @ [y]). x \<le> y"
    by (auto simp: sorted_append)
  have s: "set (ys @ [y]) = set xs" by (simp flip: ys)
  have "\<forall>x\<in>set xs. x \<le> y" using le unfolding s .
  moreover have "y \<in> set xs" using s by auto
  ultimately have "Max (set xs) = y"
    by (intro Max_eqI) auto
  then show ?thesis by (simp add: ys)
qed

lemma max_priority_eq:
  "max_priority rows = (if rows = [] then None else Some (Max (priority ` set rows)))"
  by (simp add: max_priority_def first_rev_sort)

lemma get_next_feature_cases:
  "(get_next_feature rows =
      Inl (HTTPException 404 ''All features are passing! No more work to do.'')
      \<and> (\<forall>g\<in>set rows. passes g))
   \<or> (\<exists>f. get_next_feature rows = Inr f \<and> f \<in> set rows \<and> \<not> passes f \<and>
        (\<forall>g\<in>set rows. \<not> passes g \<longrightarrow>
           priority f < priority g \<or> (priority f = priority g \<and> fid f \<le> fid g)))"
proof (cases "first (order_by_priority_id (filter (\<lambda>f. passes f = False) rows))")
  case None
  then have "filter (\<lambda>f. passes f = False) rows = []"
    by (simp only: first_order_by_None)
  then have "\<forall>g\<in>set rows. passes g"
    by (auto simp: filter_empty_conv)
  then show ?thesis using None by (simp add: get_next_feature_def)
next
  case (Some f)
  from first_order_by_Some [OF Some]
  have "f \<in> set rows" "\<not> passes f"
    and "\<forall>g\<in>set rows. \<not> passes g \<longrightarrow> (priority f, fid f) \<le> (priority g, fid g)"
    by auto
  then show ?thesis using Some by (auto simp: get_next_feature_def)
qed

section \<open>Facts about one cycle of the progress check\<close>

lemma collect_eq:
  "collect old prev fs (ids, cs) =
     (ids @ map summary_id fs,
      cs @ (if old then [] else map descriptor (filter (\<lambda>f. summary_id f \<notin> prev) fs)))"
  by (induction fs arbitrary: ids cs) simp_all

lemma finite_read_cache: "read_cache c = (previous, prev_ids) \<Longrightarrow> finite prev_ids"
  by (cases c rule: read_cache.cases) (auto split: option.splits)

text \<open>The whole effect of a cycle in which the passing count went up.\<close>

lemma send_progress_webhook_increase:
  assumes "\<not> not_url url"
    and "read_cache (cache_file w) = (previous, prev_ids)"
    and "passing > previous"
  shows "send_progress_webhook url api urlopen passing total' project_dir w =
    w\<lparr>printed_lines := printed_lines w
         @ (case api of Inl e \<Rightarrow> [API_error e] | Inr _ \<Rightarrow> [])
         @ (case urlopen of Inl e \<Rightarrow> [Webhook_failed e] | Inr _ \<Rightarrow> []),
       posted := posted w @
         [[\<lparr>event = ''test_progress'', payload_passing = passing,
            payload_total = total', previous_passing = previous,
            tests_completed_this_session = passing - previous,
            completed_tests =
              (case api of Inl e \<Rightarrow> []
               | Inr data \<Rightarrow>
                   if prev_ids = {} \<and> previous > 0 then []
                   else map descriptor
                          (filter (\<lambda>f. summary_id f \<notin> prev_ids) (passing_features data))),
            project = project_dir\<rparr>]],
       cache_file := Some (Cache_Data (Some passing)
         (Some (case api of Inl e \<Rightarrow> []
                | Inr data \<Rightarrow> map summary_id (passing_features data))))\<rparr>"
proof -
  have "finite prev_ids"
    using assms(2) by (rule finite_read_cache)
  with assms show ?thesis
    by (cases api; cases urlopen) (simp_all add: send_progress_webhook_def collect_eq)
qed

text \<open>The whole effect of a cycle in which the passing count did not go up.\<close>

lemma send_progress_webhook_no_increase:
  assumes "\<not> not_url url"
    and "\<not> passing > fst (read_cache (cache_file w))"
  shows "send_progress_webhook url api urlopen passing total' project_dir w =
    (if cache_file w = None
     then w\<lparr>cache_file := Some (Cache_Data (Some passing)
            (Some (case api of Inl e \<Rightarrow> []
                   | Inr data \<Rightarrow> map summary_id (passing_features data))))\<rparr>
     else w)"
proof -
  obtain previous prev_ids where r: "read_cache (cache_file w) = (previous, prev_ids)"
    by (cases "read_cache (cache_file w)")
  with assms(2) have "\<not> passing > previous" by simp
  with assms(1) r show ?thesis
    by (cases api) (simp_all add: send_progress_webhook_def)
qed

section \<open>The progress check: claims C1, C2, C3, C4, C9 and C10\<close>

text \<open>
  The cycles below run behind the guard \<open>if not WEBHOOK_URL: return\<close>, so their theorems
  assume that the webhook URL is set.  Where a claim was stated for every call, a call
  without a webhook URL is its counterexample: such a call changes nothing.
\<close>

subsection \<open>C1: the fetch of the passing features fails\<close>

text \<open>
  Claim C1, as amended.  When the webhook URL is set and the passing count exceeds the
  count of the persisted snapshot, but the call to \<open>/features/all-passing\<close> raises, the
  cycle does not stop: the error is printed, a notification with the count increase
  \<open>passing - previous\<close> and an empty list of completed tests is posted, and the cache file
  is rewritten with the count \<open>passing\<close> and an empty list of passing ids.
\<close>

theorem fetch_failure_continues:
  assumes "\<not> not_url url"
    and "read_cache (cache_file w) = (previous, prev_ids)"
    and "passing > previous"
  shows "send_progress_webhook url (Inl e) urlopen passing total' project_dir w =
    w\<lparr>printed_lines := printed_lines w @ [API_error e]
         @ (case urlopen of Inl e' \<Rightarrow> [Webhook_failed e'] | Inr _ \<Rightarrow> []),
       posted := posted w @
         [[\<lparr>event = ''test_progress'', payload_passing = passing,
            payload_total = total', previous_passing = previous,
            tests_completed_this_session = passing - previous,
            completed_tests = [], project = project_dir\<rparr>]],
       cache_file := Some (Cache_Data (Some passing) (Some []))\<rparr>"
  using send_progress_webhook_increase [OF assms, of "Inl e" urlopen total' project_dir]
  by simp

theorem fetch_failure_continues_witness:
  "\<not> not_url (Some ''http://sink'') \<and>
   read_cache (cache_file (example_world (Some (Cache_Data (Some 1) (Some [1]))))) = (1, {1}) \<and>
   (2::int) > 1 \<and>
   send_progress_webhook (Some ''http://sink'') (Inl ''timed out'') (Inr ()) 2 3 ''demo''
     (example_world (Some (Cache_Data (Some 1) (Some [1])))) =
   \<lparr>cache_file = Some (Cache_Data (Some 2) (Some [])),
    posted = [[\<lparr>event = ''test_progress'', payload_passing = 2, payload_total = 3,
                previous_passing = 1, tests_completed_this_session = 1,
                completed_tests = [], project = ''demo''\<rparr>]],
    printed_lines = [API_error ''timed out'']\<rparr>"
proof -
  have h1: "\<not> not_url (Some ''http://sink'')"
    by (simp add: not_url_def)
  have h2: "read_cache (cache_file (example_world (Some (Cache_Data (Some 1) (Some [1])))))
              = (1, {1})"
    by (simp add: example_world_def)
  have h3: "(2::int) > 1" by simp
  from fetch_failure_continues [OF h1 h2 h3, of "''timed out''" "Inr ()" 3 "''demo''"] h1 h2
  show ?thesis by (simp add: example_world_def)
qed

text \<open>
  Claim C1 as it was stated says that such a cycle is abandoned and leaves the snapshot as
  it was.  With the snapshot \<open>{count: 1, passing_ids: [1]}\<close>, two features passing and a
  failing fetch, the snapshot becomes \<open>{count: 2, passing_ids: []}\<close> and a notification is
  posted.
\<close>

theorem fetch_failure_counterexample:
  "cache_file
     (send_progress_webhook (Some ''http://sink'') (Inl ''timed out'') (Inr ()) 2 3 ''demo''
        (example_world (Some (Cache_Data (Some 1) (Some [1])))))
     = Some (Cache_Data (Some 2) (Some [])) \<and>
   cache_file
     (send_progress_webhook (Some ''http://sink'') (Inl ''timed out'') (Inr ()) 2 3 ''demo''
        (example_world (Some (Cache_Data (Some 1) (Some [1])))))
     \<noteq> cache_file (example_world (Some (Cache_Data (Some 1) (Some [1])))) \<and>
   posted
     (send_progress_webhook (Some ''http://sink'') (Inl ''timed out'') (Inr ()) 2 3 ''demo''
        (example_world (Some (Cache_Data (Some 1) (Some [1])))))
     \<noteq> posted (example_world (Some (Cache_Data (Some 1) (Some [1]))))"
  by (simp add: send_progress_webhook_def not_url_def example_world_def)

subsection \<open>C2: the newly passing features\<close>

text \<open>
  Claim C2, as amended.  When the webhook URL is set, with a snapshot that is not in the
  old format (not: no ids and a positive count) and a passing count above the count of
  the snapshot, the features named in
  \<open>completed_tests\<close> are the fetched features whose id is not in the snapshot, so their
  ids are the set difference of the current passing ids and the ids of the snapshot; the
  payload reports \<open>passing - previous\<close> as the count increase; and the cache file is
  rewritten with the count \<open>passing\<close> and the current passing ids.  The witness is the
  example of the specification: snapshot \<open>{count: 2, passing_ids: [1, 2]}\<close>, passing ids
  1, 2, 3, 5, hence new ids 3 and 5, increase 2, and the new snapshot
  \<open>{count: 4, passing_ids: [1, 2, 3, 5]}\<close>.
\<close>

theorem diff_engine_delta:
  assumes "\<not> not_url url"
    and "read_cache (cache_file w) = (previous, prev_ids)"
    and "\<not> (prev_ids = {} \<and> previous > 0)"
    and "passing > previous"
  shows "set (map summary_id
            (filter (\<lambda>f. summary_id f \<notin> prev_ids) (passing_features data)))
           = set (map summary_id (passing_features data)) - prev_ids \<and>
         posted (send_progress_webhook url (Inr data) urlopen passing total' project_dir w) =
           posted w @
           [[\<lparr>event = ''test_progress'', payload_passing = passing,
              payload_total = total', previous_passing = previous,
              tests_completed_this_session = passing - previous,
              completed_tests =
                map descriptor
                  (filter (\<lambda>f. summary_id f \<notin> prev_ids) (passing_features data)),
              project = project_dir\<rparr>]] \<and>
         cache_file (send_progress_webhook url (Inr data) urlopen passing total' project_dir w) =
           Some (Cache_Data (Some passing) (Some (map summary_id (passing_features data))))"
proof -
  have "set (map summary_id
            (filter (\<lambda>f. summary_id f \<notin> prev_ids) (passing_features data)))
           = set (map summary_id (passing_features data)) - prev_ids"
    by auto
  moreover note send_progress_webhook_increase
    [OF assms(1,2,4), of "Inr data" urlopen total' project_dir]
  ultimately show ?thesis using assms(3) by simp
qed

theorem diff_engine_delta_witness:
  "\<not> not_url (Some ''http://sink'') \<and>
   read_cache (cache_file (example_world (Some (Cache_Data (Some 2) (Some [1, 2])))))
     = (2, {1, 2}) \<and>
   set (map summary_id
          (filter (\<lambda>f. summary_id f \<notin> {1, 2})
             [example_summary 1 ''ui'' ''login'', example_summary 2 ''ui'' ''logout'',
              example_summary 3 [] ''search'', example_summary 5 ''api'' ''export'']))
     = {3, 5} \<and>
   posted
     (send_progress_webhook (Some ''http://sink'')
        (Inr (example_passing
           [example_summary 1 ''ui'' ''login'', example_summary 2 ''ui'' ''logout'',
            example_summary 3 [] ''search'', example_summary 5 ''api'' ''export'']))
        (Inr ()) 4 6 ''demo''
        (example_world (Some (Cache_Data (Some 2) (Some [1, 2]))))) =
     [[\<lparr>event = ''test_progress'', payload_passing = 4, payload_total = 6,
        previous_passing = 2, tests_completed_this_session = 2,
        completed_tests = [''search'', ''api export''], project = ''demo''\<rparr>]] \<and>
   cache_file
     (send_progress_webhook (Some ''http://sink'')
        (Inr (example_passing
           [example_summary 1 ''ui'' ''login'', example_summary 2 ''ui'' ''logout'',
            example_summary 3 [] ''search'', example_summary 5 ''api'' ''export'']))
        (Inr ()) 4 6 ''demo''
        (example_world (Some (Cache_Data (Some 2) (Some [1, 2]))))) =
     Some (Cache_Data (Some 4) (Some [1, 2, 3, 5]))"
proof -
  have h1: "\<not> not_url (Some ''http://sink'')"
    by (simp add: not_url_def)
  have h2: "read_cache (cache_file (example_world (Some (Cache_Data (Some 2) (Some [1, 2])))))
              = (2, {1, 2})"
    by (simp add: example_world_def)
  have h3: "\<not> ({1, 2} = ({} :: int set) \<and> (2::int) > 0)" by simp
  have h4: "(4::int) > 2" by simp
  from diff_engine_delta [OF h1 h2 h3 h4, of
      "example_passing
           [example_summary 1 ''ui'' ''login'', example_summary 2 ''ui'' ''logout'',
            example_summary 3 [] ''search'', example_summary 5 ''api'' ''export'']"
      "Inr ()" 6 "''demo''"] h1 h2
  show ?thesis
    by (simp add: example_defs descriptor_def)
qed

text \<open>
  Claim C2 as it was stated holds for every snapshot and passing set, with no condition
  on the webhook URL.  Without a webhook URL the example of the specification posts no
  payload and leaves the snapshot \<open>{count: 2, passing_ids: [1, 2]}\<close> in place.
\<close>

theorem diff_engine_delta_counterexample:
  "posted
     (send_progress_webhook None
        (Inr (example_passing
           [example_summary 1 ''ui'' ''login'', example_summary 2 ''ui'' ''logout'',
            example_summary 3 [] ''search'', example_summary 5 ''api'' ''export'']))
        (Inr ()) 4 6 ''demo''
        (example_world (Some (Cache_Data (Some 2) (Some [1, 2]))))) = [] \<and>
   cache_file
     (send_progress_webhook None
        (Inr (example_passing
           [example_summary 1 ''ui'' ''login'', example_summary 2 ''ui'' ''logout'',
            example_summary 3 [] ''search'', example_summary 5 ''api'' ''export'']))
        (Inr ()) 4 6 ''demo''
        (example_world (Some (Cache_Data (Some 2) (Some [1, 2]))))) =
     Some (Cache_Data (Some 2) (Some [1, 2])) \<and>
   cache_file
     (send_progress_webhook None
        (Inr (example_passing
           [example_summary 1 ''ui'' ''login'', example_summary 2 ''ui'' ''logout'',
            example_summary 3 [] ''search'', example_summary 5 ''api'' ''export'']))
        (Inr ()) 4 6 ''demo''
        (example_world (Some (Cache_Data (Some 2) (Some [1, 2]))))) \<noteq>
     Some (Cache_Data (Some 4) (Some [1, 2, 3, 5]))"
  by (simp add: send_progress_webhook_def not_url_def example_world_def)

subsection \<open>C3: the webhook call fails\<close>

text \<open>
  Claim C3.  In a cycle that reaches the call to the webhook (the URL is set and the
  passing count went up) the cache file is rewritten with the count \<open>passing\<close> and the
  current passing ids whether the call to the webhook raises or returns; a failure only
  adds a printed line.
\<close>

theorem delivery_failure_keeps_checkpoint:
  assumes "\<not> not_url url"
    and "passing > fst (read_cache (cache_file w))"
  shows "cache_file (send_progress_webhook url api (Inl e) passing total' project_dir w) =
           Some (Cache_Data (Some passing)
             (Some (case api of Inl _ \<Rightarrow> []
                    | Inr data \<Rightarrow> map summary_id (passing_features data)))) \<and>
         cache_file (send_progress_webhook url api (Inl e) passing total' project_dir w) =
           cache_file (send_progress_webhook url api (Inr ()) passing total' project_dir w) \<and>
         printed_lines (send_progress_webhook url api (Inl e) passing total' project_dir w) =
           printed_lines (send_progress_webhook url api (Inr ()) passing total' project_dir w)
             @ [Webhook_failed e]"
proof -
  obtain previous prev_ids where r: "read_cache (cache_file w) = (previous, prev_ids)"
    by (cases "read_cache (cache_file w)")
  with assms(2) have "passing > previous" by simp
  note inc = send_progress_webhook_increase [OF assms(1) r this]
  show ?thesis
    by (simp add: inc)
qed

theorem delivery_failure_keeps_checkpoint_witness:
  "\<not> not_url (Some ''http://sink'') \<and>
   (4::int) > fst (read_cache (cache_file (example_world (Some (Cache_Data (Some 2) (Some [1, 2])))))) \<and>
   send_progress_webhook (Some ''http://sink'')
     (Inr (example_passing
        [example_summary 1 ''ui'' ''login'', example_summary 2 ''ui'' ''logout'',
         example_summary 3 [] ''search'', example_summary 5 ''api'' ''export'']))
     (Inl ''connection refused'') 4 6 ''demo''
     (example_world (Some (Cache_Data (Some 2) (Some [1, 2])))) =
   \<lparr>cache_file = Some (Cache_Data (Some 4) (Some [1, 2, 3, 5])),
    posted = [[\<lparr>event = ''test_progress'', payload_passing = 4, payload_total = 6,
                previous_passing = 2, tests_completed_this_session = 2,
                completed_tests = [''search'', ''api export''], project = ''demo''\<rparr>]],
    printed_lines = [Webhook_failed ''connection refused'']\<rparr> \<and>
   cache_file
    (send_progress_webhook (Some ''http://sink'')
     (Inr (example_passing
        [example_summary 1 ''ui'' ''login'', example_summary 2 ''ui'' ''logout'',
         example_summary 3 [] ''search'', example_summary 5 ''api'' ''export'']))
     (Inr ()) 4 6 ''demo''
     (example_world (Some (Cache_Data (Some 2) (Some [1, 2]))))) =
   Some (Cache_Data (Some 4) (Some [1, 2, 3, 5]))"
proof -
  have h1: "\<not> not_url (Some ''http://sink'')"
    by (simp add: not_url_def)
  have h2: "(4::int) > fst (read_cache (cache_file
              (example_world (Some (Cache_Data (Some 2) (Some [1, 2]))))))"
    by (simp add: example_world_def)
  have run: "send_progress_webhook (Some ''http://sink'')
     (Inr (example_passing
        [example_summary 1 ''ui'' ''login'', example_summary 2 ''ui'' ''logout'',
         example_summary 3 [] ''search'', example_summary 5 ''api'' ''export'']))
     (Inl ''connection refused'') 4 6 ''demo''
     (example_world (Some (Cache_Data (Some 2) (Some [1, 2])))) =
   \<lparr>cache_file = Some (Cache_Data (Some 4) (Some [1, 2, 3, 5])),
    posted = [[\<lparr>event = ''test_progress'', payload_passing = 4, payload_total = 6,
                previous_passing = 2, tests_completed_this_session = 2,
                completed_tests = [''search'', ''api export''], project = ''demo''\<rparr>]],
    printed_lines = [Webhook_failed ''connection refused'']\<rparr>"
    by (simp add: send_progress_webhook_def not_url_def descriptor_def example_defs)
  from delivery_failure_keeps_checkpoint [OF h1 h2, of
      "Inr (example_passing
        [example_summary 1 ''ui'' ''login'', example_summary 2 ''ui'' ''logout'',
         example_summary 3 [] ''search'', example_summary 5 ''api'' ''export''])"
      "''connection refused''" 6 "''demo''"] h1 h2 run
  show ?thesis
    by (simp add: example_defs)
qed

subsection \<open>C4: a snapshot in the old format\<close>

text \<open>
  Claim C4, as amended.  When the webhook URL is set, with a snapshot that has a positive
  count and no passing ids (the key is missing or its list is empty) and a passing count
  above that count, the payload reports
  the increase \<open>passing - count\<close> and names no test, whatever the fetch returns.  The
  witness is the example of the specification: snapshot \<open>{count: 3, passing_ids: []}\<close>
  and passing ids 1, 2, 3, 4 give an increase of 1 and an empty list of completed tests.
\<close>

theorem legacy_snapshot_aggregate_only:
  assumes "\<not> not_url url"
    and "cache_file w = Some (Cache_Data (Some c) ids)"
    and "ids = None \<or> ids = Some []"
    and "0 < c"
    and "c < passing"
  shows "posted (send_progress_webhook url api urlopen passing total' project_dir w) =
           posted w @
           [[\<lparr>event = ''test_progress'', payload_passing = passing,
              payload_total = total', previous_passing = c,
              tests_completed_this_session = passing - c,
              completed_tests = [], project = project_dir\<rparr>]]"
proof -
  have r: "read_cache (cache_file w) = (c, {})"
    using assms(2,3) by auto
  have "passing > c" using assms(5) by simp
  note inc = send_progress_webhook_increase [OF assms(1) r this]
  show ?thesis
    using assms(4) by (cases api) (simp_all add: inc)
qed

theorem legacy_snapshot_aggregate_only_witness:
  "\<not> not_url (Some ''http://sink'') \<and>
   posted
     (send_progress_webhook (Some ''http://sink'')
        (Inr (example_passing
           [example_summary 1 ''ui'' ''login'', example_summary 2 ''ui'' ''logout'',
            example_summary 3 [] ''search'', example_summary 4 ''api'' ''export'']))
        (Inr ()) 4 6 ''demo''
        (example_world (Some (Cache_Data (Some 3) (Some []))))) =
     [[\<lparr>event = ''test_progress'', payload_passing = 4, payload_total = 6,
        previous_passing = 3, tests_completed_this_session = 1,
        completed_tests = [], project = ''demo''\<rparr>]]"
proof -
  have h1: "\<not> not_url (Some ''http://sink'')"
    by (simp add: not_url_def)
  have h2: "cache_file (example_world (Some (Cache_Data (Some 3) (Some [])))) =
              Some (Cache_Data (Some 3) (Some []))"
    by (simp add: example_world_def)
  have h3: "Some ([] :: int list) = None \<or> Some ([] :: int list) = Some []" by simp
  have h4: "(0::int) < 3" and h5: "(3::int) < 4" by simp_all
  from legacy_snapshot_aggregate_only [OF h1 h2 h3 h4 h5, of
      "Inr (example_passing
           [example_summary 1 ''ui'' ''login'', example_summary 2 ''ui'' ''logout'',
            example_summary 3 [] ''search'', example_summary 4 ''api'' ''export''])"
      "Inr ()" 6 "''demo''"] h1
  show ?thesis
    by (simp add: example_world_def)
qed

text \<open>
  Claim C4 as it was stated has no condition on the webhook URL.  Without a webhook URL
  the example of the specification reports nothing: no payload is posted.
\<close>

theorem legacy_snapshot_counterexample:
  "posted
     (send_progress_webhook None
        (Inr (example_passing
           [example_summary 1 ''ui'' ''login'', example_summary 2 ''ui'' ''logout'',
            example_summary 3 [] ''search'', example_summary 4 ''api'' ''export'']))
        (Inr ()) 4 6 ''demo''
        (example_world (Some (Cache_Data (Some 3) (Some []))))) = [] \<and>
   posted
     (send_progress_webhook None
        (Inr (example_passing
           [example_summary 1 ''ui'' ''login'', example_summary 2 ''ui'' ''logout'',
            example_summary 3 [] ''search'', example_summary 4 ''api'' ''export'']))
        (Inr ()) 4 6 ''demo''
        (example_world (Some (Cache_Data (Some 3) (Some []))))) \<noteq>
     [[\<lparr>event = ''test_progress'', payload_passing = 4, payload_total = 6,
        previous_passing = 3, tests_completed_this_session = 1,
        completed_tests = [], project = ''demo''\<rparr>]]"
  by (simp add: send_progress_webhook_def not_url_def example_world_def)

subsection \<open>C9: the first cycle creates the cache file\<close>

text \<open>
  Claim C9, as amended.  When the cache file does not exist, the statistics give
  \<open>total > 0\<close> and the webhook URL is set, \<open>print_progress_summary\<close> leaves a cache file
  with the count \<open>passing\<close> and the ids of the passing features that were fetched (none
  when the fetch fails).  When the webhook URL is not set, no cache file is created.
\<close>

theorem first_invocation_creates_snapshot:
  assumes "cache_file w = None"
    and "0 < total'"
  shows "cache_file
           (print_progress_summary url (Inr (passing, total')) api urlopen project_dir w) =
         (if not_url url then None
          else Some (Cache_Data (Some passing)
                 (Some (case api of Inl _ \<Rightarrow> []
                        | Inr data \<Rightarrow> map summary_id (passing_features data)))))"
proof (cases "not_url url")
  case True
  with assms show ?thesis
    by (simp add: print_progress_summary_def count_passing_tests_def
        send_progress_webhook_def)
next
  case False
  let ?w = "w\<lparr>printed_lines := printed_lines w @ [Progress passing total']\<rparr>"
  have r: "read_cache (cache_file ?w) = (0, {})"
    using assms(1) by simp
  have "cache_file (send_progress_webhook url api urlopen passing total' project_dir ?w) =
          Some (Cache_Data (Some passing)
                 (Some (case api of Inl _ \<Rightarrow> []
                        | Inr data \<Rightarrow> map summary_id (passing_features data))))"
  proof (cases "passing > 0")
    case True
    from send_progress_webhook_increase [OF False r True] show ?thesis by simp
  next
    case neg: False
    then have "\<not> passing > fst (read_cache (cache_file ?w))" using r by simp
    from send_progress_webhook_no_increase [OF False this] assms(1) show ?thesis by simp
  qed
  with False assms(2) show ?thesis
    by (simp add: print_progress_summary_def count_passing_tests_def)
qed

theorem first_invocation_creates_snapshot_witness:
  "cache_file (example_world None) = None \<and> (0::int) < 3 \<and>
   cache_file
     (print_progress_summary (Some ''http://sink'') (Inr (0, 3))
        (Inr (example_passing [])) (Inr ()) ''demo'' (example_world None)) =
     Some (Cache_Data (Some 0) (Some [])) \<and>
   cache_file
     (print_progress_summary (Some ''http://sink'') (Inr (1, 3))
        (Inr (example_passing [example_summary 7 ''ui'' ''login'']))
        (Inr ()) ''demo'' (example_world None)) =
     Some (Cache_Data (Some 1) (Some [7]))"
proof -
  have h1: "cache_file (example_world None) = None"
    by (simp add: example_world_def)
  have h2: "(0::int) < 3" by simp
  from first_invocation_creates_snapshot [OF h1 h2, of "Some ''http://sink''" 0
      "Inr (example_passing [])" "Inr ()" "''demo''"]
    first_invocation_creates_snapshot [OF h1 h2, of "Some ''http://sink''" 1
      "Inr (example_passing [example_summary 7 ''ui'' ''login''])" "Inr ()" "''demo''"] h1
  show ?thesis
    by (simp add: not_url_def example_passing_def example_summary_def)
qed

text \<open>
  Claim C9 as it was stated promises a cache file after every first cycle with
  \<open>total > 0\<close>.  Without a webhook URL, which is the state of an environment that does
  not define \<open>PROGRESS_N8N_WEBHOOK_URL\<close>, the call returns at once and there is no cache
  file afterwards.
\<close>

theorem no_webhook_no_snapshot_counterexample:
  "cache_file
     (print_progress_summary None (Inr (1, 3))
        (Inr (example_passing [example_summary 1 ''ui'' ''login'']))
        (Inr ()) ''demo'' (example_world None)) = None"
  by (simp add: print_progress_summary_def count_passing_tests_def
      send_progress_webhook_def not_url_def example_world_def)

subsection \<open>C10: a cache file that cannot be parsed\<close>

text \<open>
  Claim C10, as amended.  When the webhook URL is set, a cache file that exists but cannot
  be parsed is read as the count 0 with no passing ids: when some feature passes (\<open>passing > 0\<close>), the cycle runs as it does from
  the snapshot \<open>{count: 0, passing_ids: []}\<close>, it names every fetched passing feature in
  \<open>completed_tests\<close>, reports \<open>passing\<close> as the increase, and rewrites the cache file.
\<close>

theorem unparsable_cache_is_fresh_baseline:
  assumes "\<not> not_url url"
    and "cache_file w = Some Unparsable"
    and "0 < passing"
  shows "send_progress_webhook url api urlopen passing total' project_dir w =
           send_progress_webhook url api urlopen passing total' project_dir
             (w\<lparr>cache_file := Some (Cache_Data (Some 0) (Some []))\<rparr>) \<and>
         posted (send_progress_webhook url (Inr data) urlopen passing total' project_dir w) =
           posted w @
           [[\<lparr>event = ''test_progress'', payload_passing = passing,
              payload_total = total', previous_passing = 0,
              tests_completed_this_session = passing,
              completed_tests = map descriptor (passing_features data),
              project = project_dir\<rparr>]] \<and>
         cache_file (send_progress_webhook url (Inr data) urlopen passing total' project_dir w) =
           Some (Cache_Data (Some passing) (Some (map summary_id (passing_features data))))"
proof -
  let ?w = "w\<lparr>cache_file := Some (Cache_Data (Some 0) (Some []))\<rparr>"
  have r: "read_cache (cache_file w) = (0, {})"
    using assms(2) by simp
  have r': "read_cache (cache_file ?w) = (0, {})"
    by simp
  have p: "passing > 0" using assms(3) by simp
  note a = send_progress_webhook_increase [OF assms(1) r p]
  note b = send_progress_webhook_increase [OF assms(1) r' p]
  show ?thesis
    by (simp add: a b)
qed

theorem unparsable_cache_is_fresh_baseline_witness:
  "\<not> not_url (Some ''http://sink'') \<and>
   cache_file (example_world (Some Unparsable)) = Some Unparsable \<and>
   send_progress_webhook (Some ''http://sink'')
     (Inr (get_all_passing_features
        [example_feature 1 3 True, example_feature 2 1 True, example_feature 3 2 False]))
     (Inr ()) 2 3 ''demo'' (example_world (Some Unparsable)) =
   \<lparr>cache_file = Some (Cache_Data (Some 2) (Some [2, 1])),
    posted = [[\<lparr>event = ''test_progress'', payload_passing = 2, payload_total = 3,
                previous_passing = 0, tests_completed_this_session = 2,
                completed_tests = [''ui item'', ''ui item''], project = ''demo''\<rparr>]],
    printed_lines = []\<rparr>"
proof -
  have h1: "\<not> not_url (Some ''http://sink'')"
    by (simp add: not_url_def)
  have h2: "cache_file (example_world (Some Unparsable)) = Some Unparsable"
    by (simp add: example_world_def)
  have h3: "(0::int) < 2" by simp
  have run: "send_progress_webhook (Some ''http://sink'')
     (Inr (get_all_passing_features
        [example_feature 1 3 True, example_feature 2 1 True, example_feature 3 2 False]))
     (Inr ()) 2 3 ''demo'' (example_world (Some (Cache_Data (Some 0) (Some [])))) =
   \<lparr>cache_file = Some (Cache_Data (Some 2) (Some [2, 1])),
    posted = [[\<lparr>event = ''test_progress'', payload_passing = 2, payload_total = 3,
                previous_passing = 0, tests_completed_this_session = 2,
                completed_tests = [''ui item'', ''ui item''], project = ''demo''\<rparr>]],
    printed_lines = []\<rparr>"
    by (simp add: send_progress_webhook_def not_url_def descriptor_def
        get_all_passing_features_def order_by_priority_id_def example_defs)
  from unparsable_cache_is_fresh_baseline [OF h1 h2 h3, of
      "Inr (get_all_passing_features
        [example_feature 1 3 True, example_feature 2 1 True, example_feature 3 2 False])"
      "Inr ()" 3 "''demo''"] h1 h2 run
  show ?thesis
    by (simp add: example_world_def)
qed

text \<open>
  Claim C10 as it was stated holds for every call.  Without a webhook URL a call with two
  passing features and a cache file that cannot be parsed posts no payload, so it reports
  no feature as newly passing, and it leaves the cache file as it is.
\<close>

theorem unparsable_cache_counterexample:
  "posted
     (send_progress_webhook None
        (Inr (get_all_passing_features
           [example_feature 1 3 True, example_feature 2 1 True, example_feature 3 2 False]))
        (Inr ()) 2 3 ''demo'' (example_world (Some Unparsable))) = [] \<and>
   cache_file
     (send_progress_webhook None
        (Inr (get_all_passing_features
           [example_feature 1 3 True, example_feature 2 1 True, example_feature 3 2 False]))
        (Inr ()) 2 3 ''demo'' (example_world (Some Unparsable))) = Some Unparsable"
  by (simp add: send_progress_webhook_def not_url_def example_world_def)

section \<open>The feature queue: claims C5, C6, C7 and C8\<close>

subsection \<open>C5: the limit of the list operation\<close>

text \<open>
  Claim C5, as amended.  When the offset is left out or not negative, a limit from 1 to 5
  gives a page of at most \<open>limit\<close>, hence at most 5, features, and a limit that is left
  out counts as 5.  A limit below 1 or above 5 is not bounded to 5 but rejected with a
  validation error, and no page is returned, whatever the offset is.  A negative offset is
  rejected with a validation error as well, whatever the limit is.
\<close>

theorem list_features_limit:
  "(1 \<le> l \<and> l \<le> 5 \<and> (\<forall>k. offset_param = Some k \<longrightarrow> 0 \<le> k) \<longrightarrow>
      (\<exists>r. list_features (Some l) offset_param p c random shuffle rows = Inr r \<and>
            limit r = l \<and> int (length (features r)) \<le> l \<and> length (features r) \<le> 5)) \<and>
   (l < 1 \<or> 5 < l \<longrightarrow>
      list_features (Some l) offset_param p c random shuffle rows = Inl RequestValidationError) \<and>
   ((\<forall>k. offset_param = Some k \<longrightarrow> 0 \<le> k) \<longrightarrow>
      (\<exists>r. list_features None offset_param p c random shuffle rows = Inr r \<and>
            limit r = 5 \<and> length (features r) \<le> 5)) \<and>
   (k < 0 \<longrightarrow>
      list_features limit_param (Some k) p c random shuffle rows = Inl RequestValidationError)"
  by (auto simp: list_features_def Let_def split: option.splits)

theorem list_features_limit_witness:
  "(\<exists>r. list_features (Some 2) (Some 1) None None False id example_rows = Inr r \<and>
        limit r = 2 \<and> int (length (features r)) \<le> 2 \<and> length (features r) \<le> 5) \<and>
   list_features (Some 6) (Some 1) None None False id example_rows = Inl RequestValidationError \<and>
   list_features (Some 0) (Some 1) None None False id example_rows = Inl RequestValidationError \<and>
   (\<exists>r. list_features None (Some 1) None None False id example_rows = Inr r \<and>
        limit r = 5 \<and> length (features r) \<le> 5) \<and>
   (\<exists>r. list_features (Some 5) None None None False id example_rows = Inr r \<and>
        limit r = 5 \<and> int (length (features r)) \<le> 5 \<and> length (features r) \<le> 5) \<and>
   list_features (Some 3) (Some (- 1)) None None False id example_rows =
     Inl RequestValidationError \<and>
   list_features None (Some (- 1)) None None False id example_rows =
     Inl RequestValidationError"
  using list_features_limit [of 2 "Some 1" None None False id example_rows 0 None]
    list_features_limit [of 6 "Some 1" None None False id example_rows 0 None]
    list_features_limit [of 0 "Some 1" None None False id example_rows 0 None]
    list_features_limit [of 5 None None None False id example_rows "- 1" "Some 3"]
    list_features_limit [of 5 None None None False id example_rows "- 1" None]
  by simp

text \<open>
  Claim C5 as it was stated says that every limit is bounded to 5 instead of being
  rejected.  The limit 10 is rejected.
\<close>

theorem list_features_limit_counterexample:
  "list_features (Some 10) None None None False id example_rows = Inl RequestValidationError"
  by (simp add: list_features_def)

subsection \<open>C6: skipping a pending feature\<close>

text \<open>
  Claim C6.  When the feature with the given id is in the table and does not pass,
  \<open>skip_feature\<close> succeeds, the new priority is the maximum priority of the table plus 1,
  which is greater than the old priority, and the table after the call differs from the
  table before only in the priority of the rows with that id: every other row and every
  other column (also \<open>passes\<close>) are as before.
\<close>

theorem skip_moves_to_back:
  assumes "first (filter (\<lambda>g. fid g = feature_id) rows) = Some f"
    and "\<not> passes f"
  shows "\<exists>r rows'. skip_feature feature_id rows = (Inr r, rows') \<and>
           old_priority r = priority f \<and>
           new_priority r = Max (priority ` set rows) + 1 \<and>
           priority f < new_priority r \<and>
           length rows' = length rows \<and>
           (\<forall>k<length rows.
              rows' ! k = (if fid (rows ! k) = feature_id
                           then (rows ! k)\<lparr>priority := Max (priority ` set rows) + 1\<rparr>
                           else rows ! k))"
proof -
  from assms(1) obtain ys where ys: "filter (\<lambda>g. fid g = feature_id) rows = f # ys"
    by (auto simp: first_eq_Some)
  then have "f \<in> set (filter (\<lambda>g. fid g = feature_id) rows)" by simp
  then have f: "f \<in> set rows" "fid f = feature_id" by auto
  then have ne: "rows \<noteq> []" by auto
  have "priority f \<le> Max (priority ` set rows)"
    using f(1) by (intro Max_ge) auto
  then show ?thesis
    using assms f(2) ne by (simp add: skip_feature_def max_priority_eq)
qed

theorem skip_moves_to_back_witness:
  "first (filter (\<lambda>g. fid g = 3) example_rows) = Some (example_feature 3 2 False) \<and>
   \<not> passes (example_feature 3 2 False) \<and>
   (\<exists>r rows'. skip_feature 3 example_rows = (Inr r, rows') \<and>
      old_priority r = 2 \<and> new_priority r = 4 \<and>
      rows' = [example_feature 1 3 False, example_feature 2 1 True,
               example_feature 3 4 False, example_feature 4 2 False])"
proof -
  have h1: "first (filter (\<lambda>g. fid g = 3) example_rows) = Some (example_feature 3 2 False)"
    by (simp add: example_defs)
  have h2: "\<not> passes (example_feature 3 2 False)"
    by (simp add: example_defs)
  have m: "Max (priority ` set example_rows) + 1 = 4"
    by (simp add: example_defs)
  from skip_moves_to_back [OF h1 h2] obtain r rows'
    where r: "skip_feature 3 example_rows = (Inr r, rows')"
      "old_priority r = priority (example_feature 3 2 False)"
      "new_priority r = Max (priority ` set example_rows) + 1"
      "length rows' = length example_rows"
      "\<forall>k<length example_rows.
         rows' ! k = (if fid (example_rows ! k) = 3
                      then (example_rows ! k)\<lparr>priority := Max (priority ` set example_rows) + 1\<rparr>
                      else example_rows ! k)"
    by blast
  have len: "length rows' = 4" using r(4) by (simp add: example_defs)
  have "rows' ! 0 = example_feature 1 3 False" "rows' ! 1 = example_feature 2 1 True"
    "rows' ! 2 = example_feature 3 4 False" "rows' ! 3 = example_feature 4 2 False"
    using r(5) unfolding m by (simp_all add: example_defs)
  with len have "rows' = [example_feature 1 3 False, example_feature 2 1 True,
               example_feature 3 4 False, example_feature 4 2 False]"
    by (intro nth_equalityI) (auto simp: less_Suc_eq numeral_eq_Suc)
  with r(1,2,3) h1 h2 m show ?thesis
    by (simp add: example_feature_def)
qed

subsection \<open>C7: skipping a passing feature\<close>

text \<open>
  Claim C7.  When the feature with the given id passes, \<open>skip_feature\<close> raises the HTTP
  error 400 and the table is unchanged.
\<close>

theorem skip_passing_rejected:
  assumes "first (filter (\<lambda>g. fid g = feature_id) rows) = Some f"
    and "passes f"
  shows "skip_feature feature_id rows =
           (Inl (HTTPException 400 ''Cannot skip a feature that is already passing''), rows)"
  using assms by (simp add: skip_feature_def)

theorem skip_passing_rejected_witness:
  "first (filter (\<lambda>g. fid g = 2) example_rows) = Some (example_feature 2 1 True) \<and>
   passes (example_feature 2 1 True) \<and>
   skip_feature 2 example_rows =
     (Inl (HTTPException 400 ''Cannot skip a feature that is already passing''), example_rows)"
proof -
  have h1: "first (filter (\<lambda>g. fid g = 2) example_rows) = Some (example_feature 2 1 True)"
    by (simp add: example_defs)
  have h2: "passes (example_feature 2 1 True)"
    by (simp add: example_defs)
  from skip_passing_rejected [OF h1 h2] h1 h2 show ?thesis by simp
qed

subsection \<open>C8: the next pending feature\<close>

text \<open>
  Claim C8.  \<open>get_next_feature\<close> raises the HTTP error 404 exactly when every feature
  passes; otherwise it returns a feature of the table that does not pass and whose
  (priority, id) is least, in the lexicographic order, among the features that do not
  pass.
\<close>

theorem next_feature_is_minimum_pending:
  "(get_next_feature rows =
      Inl (HTTPException 404 ''All features are passing! No more work to do.'')
      \<longleftrightarrow> (\<forall>g\<in>set rows. passes g)) \<and>
   ((\<exists>g\<in>set rows. \<not> passes g) \<longrightarrow> (\<exists>f. get_next_feature rows = Inr f)) \<and>
   (\<forall>f. get_next_feature rows = Inr f \<longrightarrow>
      f \<in> set rows \<and> \<not> passes f \<and>
      (\<forall>g\<in>set rows. \<not> passes g \<longrightarrow>
         priority f < priority g \<or> (priority f = priority g \<and> fid f \<le> fid g)))"
  using get_next_feature_cases [of rows] by auto

theorem next_feature_is_minimum_pending_witness:
  "get_next_feature example_rows = Inr (example_feature 3 2 False) \<and>
   example_feature 3 2 False \<in> set example_rows \<and>
   \<not> passes (example_feature 3 2 False) \<and>
   (priority (example_feature 3 2 False) < priority (example_feature 1 3 False) \<or>
    (priority (example_feature 3 2 False) = priority (example_feature 1 3 False) \<and>
     fid (example_feature 3 2 False) \<le> fid (example_feature 1 3 False))) \<and>
   (priority (example_feature 3 2 False) < priority (example_feature 4 2 False) \<or>
    (priority (example_feature 3 2 False) = priority (example_feature 4 2 False) \<and>
     fid (example_feature 3 2 False) \<le> fid (example_feature 4 2 False))) \<and>
   get_next_feature [example_feature 2 1 True] =
     Inl (HTTPException 404 ''All features are passing! No more work to do.'')"
proof -
  have run: "get_next_feature example_rows = Inr (example_feature 3 2 False)"
    by (simp add: get_next_feature_def order_by_priority_id_def example_defs)
  have pending:
    "example_feature 1 3 False \<in> set example_rows \<and> \<not> passes (example_feature 1 3 False)"
    "example_feature 4 2 False \<in> set example_rows \<and> \<not> passes (example_feature 4 2 False)"
    by (simp_all add: example_defs)
  have all: "\<forall>g\<in>set [example_feature 2 1 True]. passes g"
    by (simp add: example_defs)
  from next_feature_is_minimum_pending [of example_rows] run pending
    next_feature_is_minimum_pending [of "[example_feature 2 1 True]"] all
  show ?thesis by blast
qed

end
